theory Spec2Isabelle
  imports Main
begin

section \<open>The statement table controller (useStatementTableController.ts)\<close>

text \<open>
  The controller is a React hook. Its \<open>useState\<close> slots are the fields of one record;
  every \<open>async\<close> function is split at its single \<open>await\<close> into the part that runs
  synchronously up to the remote call and the part that resumes when the promise of
  the call settles. Remote calls that are in flight are kept in \<open>pending\<close>, and every
  call ever issued is logged in \<open>issued\<close>. An event is a call of one of the
  controller's operations, a re-render with new arguments, or the settlement of a
  pending call. React commits the state updates of one handler in a single render,
  after which the two \<open>useEffect\<close> bodies run when their dependency arrays changed:
  \<open>step\<close> is an event that is rendered on its own, \<open>batch\<close> a list of events whose
  updates are rendered together.
\<close>

subsection \<open>Data\<close>

text \<open>
  A thrown value. The remote client rejects with an error object; reading a property of
  \<open>undefined\<close> throws a \<open>TypeError\<close>. (A thrown value is never an array, so
  \<open>prev.concat(e)\<close> adds exactly one element.)
\<close>

datatype error = RequestError string | TypeError string

record StatementTimeRange =
  begin_time :: "int option"
  end_time :: "int option"

text \<open>\<open>IStatementQueryOptions\<close>; the type \<open>TimeRange\<close> is imported and stays abstract.\<close>

record 'tr IStatementQueryOptions =
  timeRange :: 'tr
  schemas :: "string list"
  stmtTypes :: "string list"
  searchText :: string

record IOrderOptions =
  orderBy :: string
  desc :: bool

type_synonym IColumnKeys = "(string \<times> bool) list"

text \<open>The payload of \<open>statementsConfigGet\<close>: an object with an optional \<open>enable\<close>.\<close>

datatype StatementConfig = StatementConfig (config_enable: "bool option")

text \<open>A response object of the remote client; \<open>data\<close> may be absent.\<close>

datatype 'a AxiosResponse = AxiosResponse (data: "'a option")

text \<open>
  How the promise of a remote call settles. The source reads \<open>res?.data\<close>, so a
  fulfilled promise may carry no response object at all (\<open>Fulfilled None\<close>).
\<close>

datatype 'a settled = Fulfilled "'a AxiosResponse option" | Rejected error

datatype request =
    StatementsConfigGet
  | InfoListDatabases
  | StatementsTimeRangesGet
  | StatementsStmtTypesGet
  | StatementsListGet "int option" "int option" string "string list" "string list" string
  | StatementsDownloadTokenPost "int option" "int option" string "string list" "string list" string

datatype 'stmt response =
    ConfigResponse "StatementConfig settled"
  | DatabasesResponse "string list settled"
  | TimeRangesResponse "StatementTimeRange list settled"
  | StmtTypesResponse "string list settled"
  | ListResponse "'stmt list settled"
  | TokenResponse "string settled"

datatype ('tr, 'stmt) event =
    SetQueryOptions "'tr IStatementQueryOptions"
  | Refresh
  | ChangeOrder string bool
  | Rerender IColumnKeys bool
  | DownloadCSV
  | Settle nat "'stmt response"

text \<open>
  What the file imports and does not define: \<open>calcValidStatementTimeRange\<close>,
  \<open>DEFAULT_TIME_RANGE\<close>, \<open>getSelectedFields\<close> (already applied to \<open>derivedFields\<close>),
  \<open>client.getBasePath()\<close>, and the serialisation of the session storage hook
  (\<open>stringify\<close> to the stored form, \<open>parse\<close> back).
\<close>

record ('tr, 'ser) env =
  calcValidStatementTimeRange :: "'tr \<Rightarrow> StatementTimeRange list \<Rightarrow> StatementTimeRange"
  DEFAULT_TIME_RANGE :: 'tr
  getSelectedFields :: "IColumnKeys \<Rightarrow> string list"
  getBasePath :: string
  stringify :: "'tr IStatementQueryOptions \<Rightarrow> 'ser"
  parse :: "'ser \<Rightarrow> 'tr IStatementQueryOptions"

text \<open>
  The state. An array or object held in a slot that a dependency array compares by
  identity carries a reference stamp (\<open>...Ref\<close>): every setter call stores a freshly
  allocated value, so it stores a fresh stamp taken from \<open>nextRef\<close>.
  \<open>metadataDeps\<close> and \<open>listDeps\<close> are the dependency arrays the two effects last ran
  with (\<open>None\<close> before the first render). \<open>href\<close> is the last assignment to
  \<open>window.location.href\<close>; \<open>downloadResults\<close> lists how the promises returned by
  \<open>downloadCSV\<close> settled.
\<close>

record ('tr, 'stmt, 'ser) controller =
  visibleColumnKeys :: IColumnKeys
  showFullSQL :: bool
  needSave :: bool
  orderOptions :: IOrderOptions
  memoryQueryOptions :: "'tr IStatementQueryOptions"
  memoryQueryOptionsRef :: nat
  sessionQueryOptions :: "'tr IStatementQueryOptions"
  sessionQueryOptionsRef :: nat
  enable :: "bool option"
  allTimeRanges :: "StatementTimeRange list"
  allTimeRangesRef :: nat
  allSchemas :: "string list"
  allStmtTypes :: "string list"
  loadingStatements :: bool
  statements :: "'stmt list"
  refreshTimes :: nat
  errors :: "error list"
  downloading :: bool
  metadataDeps :: "nat option"
  listDeps :: "(nat \<times> nat \<times> string) option"
  sessionStorage :: "string \<rightharpoonup> 'ser"
  href :: "string option"
  pending :: "nat \<rightharpoonup> request"
  nextId :: nat
  issued :: "request list"
  nextRef :: nat
  downloadResults :: "(error + unit) list"

subsection \<open>Constants and derived values\<close>

definition QUERY_OPTIONS :: string where
  "QUERY_OPTIONS = ''statement.query_options''"

definition DEF_ORDER_OPTIONS :: IOrderOptions where
  "DEF_ORDER_OPTIONS = \<lparr>orderBy = ''sum_latency'', desc = True\<rparr>"

definition DEF_STMT_QUERY_OPTIONS :: "('tr, 'ser) env \<Rightarrow> 'tr IStatementQueryOptions" where
  "DEF_STMT_QUERY_OPTIONS env =
     \<lparr>timeRange = DEFAULT_TIME_RANGE env, schemas = [], stmtTypes = [], searchText = ''''\<rparr>"

text \<open>\<open>needSave ? sessionQueryOptions : memoryQueryOptions\<close>, and the identity of that object.\<close>

definition queryOptions :: "('tr, 'stmt, 'ser) controller \<Rightarrow> 'tr IStatementQueryOptions" where
  "queryOptions w = (if needSave w then sessionQueryOptions w else memoryQueryOptions w)"

definition queryOptionsRef :: "('tr, 'stmt, 'ser) controller \<Rightarrow> nat" where
  "queryOptionsRef w = (if needSave w then sessionQueryOptionsRef w else memoryQueryOptionsRef w)"

definition validTimeRange ::
  "('tr, 'ser) env \<Rightarrow> ('tr, 'stmt, 'ser) controller \<Rightarrow> StatementTimeRange" where
  "validTimeRange env w =
     calcValidStatementTimeRange env (timeRange (queryOptions w)) (allTimeRanges w)"

text \<open>\<open>Array.prototype.join\<close>.\<close>

fun join :: "string \<Rightarrow> string list \<Rightarrow> string" where
  "join sep [] = []"
| "join sep [x] = x"
| "join sep (x # y # ys) = x @ sep @ join sep (y # ys)"

definition selectedFields :: "('tr, 'ser) env \<Rightarrow> ('tr, 'stmt, 'ser) controller \<Rightarrow> string" where
  "selectedFields env w = join '','' (getSelectedFields env (visibleColumnKeys w))"

text \<open>\<open>res?.data || []\<close>: an array is always truthy, so only an absent value is replaced.\<close>

definition dataOr :: "'a AxiosResponse option \<Rightarrow> 'a \<Rightarrow> 'a" where
  "dataOr res d =
     (case res of
        None \<Rightarrow> d
      | Some r \<Rightarrow> (case data r of None \<Rightarrow> d | Some x \<Rightarrow> x))"

text \<open>Issuing a remote call: it becomes pending under a fresh id and is logged.\<close>

definition send ::
  "request \<Rightarrow> ('tr, 'stmt, 'ser) controller \<Rightarrow> ('tr, 'stmt, 'ser) controller" where
  "send q w =
     w\<lparr>pending := (pending w)(nextId w \<mapsto> q),
       nextId := Suc (nextId w),
       issued := issued w @ [q]\<rparr>"

subsection \<open>Query options and refresh\<close>

text \<open>
  Modelled from the spec: the session storage hook \<open>useSessionStorageState\<close> is a
  library function. Its state is initialised from the value stored under the key, or
  from the default when nothing is stored; its setter overwrites the stored value and
  the state.
\<close>

definition useSessionStorageState ::
  "('tr, 'ser) env \<Rightarrow> (string \<rightharpoonup> 'ser) \<Rightarrow> string \<Rightarrow> 'tr IStatementQueryOptions \<Rightarrow>
   'tr IStatementQueryOptions" where
  "useSessionStorageState env storage key defaultValue =
     (case storage key of None \<Rightarrow> defaultValue | Some s \<Rightarrow> parse env s)"

text \<open>
  The object passed to \<open>setQueryOptions\<close> is taken to be newly built by the caller,
  so it gets a fresh reference stamp. (Were it the object the controller already
  holds, React would keep the state as it is.)
\<close>

definition setSessionQueryOptions ::
  "('tr, 'ser) env \<Rightarrow> 'tr IStatementQueryOptions \<Rightarrow>
   ('tr, 'stmt, 'ser) controller \<Rightarrow> ('tr, 'stmt, 'ser) controller" where
  "setSessionQueryOptions env newOptions w =
     w\<lparr>sessionStorage := (sessionStorage w)(QUERY_OPTIONS \<mapsto> stringify env newOptions),
       sessionQueryOptions := newOptions,
       sessionQueryOptionsRef := nextRef w,
       nextRef := Suc (nextRef w)\<rparr>"

definition setMemoryQueryOptions ::
  "'tr IStatementQueryOptions \<Rightarrow>
   ('tr, 'stmt, 'ser) controller \<Rightarrow> ('tr, 'stmt, 'ser) controller" where
  "setMemoryQueryOptions newOptions w =
     w\<lparr>memoryQueryOptions := newOptions,
       memoryQueryOptionsRef := nextRef w,
       nextRef := Suc (nextRef w)\<rparr>"

definition setQueryOptions ::
  "('tr, 'ser) env \<Rightarrow> 'tr IStatementQueryOptions \<Rightarrow>
   ('tr, 'stmt, 'ser) controller \<Rightarrow> ('tr, 'stmt, 'ser) controller" where
  "setQueryOptions env newOptions w =
     (if needSave w
      then setSessionQueryOptions env newOptions w
      else setMemoryQueryOptions newOptions w)"

text \<open>
  \<open>refreshTimes\<close> is a natural number: the JavaScript counter is exact far beyond
  any number of refreshes a session can make.
\<close>

definition refresh :: "('tr, 'stmt, 'ser) controller \<Rightarrow> ('tr, 'stmt, 'ser) controller" where
  "refresh w = w\<lparr>errors := [], refreshTimes := refreshTimes w + 1\<rparr>"

text \<open>
  Modelled from the spec: \<open>useOrderState\<close> is imported; it holds the sort column and
  the direction, and \<open>changeOrder\<close> replaces them.
\<close>

definition changeOrder ::
  "string \<Rightarrow> bool \<Rightarrow> ('tr, 'stmt, 'ser) controller \<Rightarrow> ('tr, 'stmt, 'ser) controller" where
  "changeOrder ob d w = w\<lparr>orderOptions := \<lparr>orderBy = ob, desc = d\<rparr>\<rparr>"

subsection \<open>The metadata loader\<close>

definition queryStatementStatus ::
  "('tr, 'stmt, 'ser) controller \<Rightarrow> ('tr, 'stmt, 'ser) controller" where
  "queryStatementStatus w = send StatementsConfigGet w"

text \<open>
  \<open>setEnable(res?.data.enable!)\<close>: without a response object the flag becomes
  \<open>undefined\<close>; with a response object that has no \<open>data\<close> the property read throws
  inside the \<open>try\<close>, and the \<open>catch\<close> records the error.
\<close>

definition queryStatementStatus_resume ::
  "StatementConfig settled \<Rightarrow> ('tr, 'stmt, 'ser) controller \<Rightarrow> ('tr, 'stmt, 'ser) controller" where
  "queryStatementStatus_resume r w =
     (case r of
        Fulfilled None \<Rightarrow> w\<lparr>enable := None\<rparr>
      | Fulfilled (Some res) \<Rightarrow>
          (case data res of
             None \<Rightarrow> w\<lparr>errors := errors w @ [TypeError ''enable'']\<rparr>
           | Some c \<Rightarrow> w\<lparr>enable := config_enable c\<rparr>)
      | Rejected e \<Rightarrow> w\<lparr>errors := errors w @ [e]\<rparr>)"

definition querySchemas ::
  "('tr, 'stmt, 'ser) controller \<Rightarrow> ('tr, 'stmt, 'ser) controller" where
  "querySchemas w = send InfoListDatabases w"

definition querySchemas_resume ::
  "string list settled \<Rightarrow> ('tr, 'stmt, 'ser) controller \<Rightarrow> ('tr, 'stmt, 'ser) controller" where
  "querySchemas_resume r w =
     (case r of
        Fulfilled res \<Rightarrow> w\<lparr>allSchemas := dataOr res []\<rparr>
      | Rejected e \<Rightarrow> w\<lparr>errors := errors w @ [e]\<rparr>)"

definition queryTimeRanges ::
  "('tr, 'stmt, 'ser) controller \<Rightarrow> ('tr, 'stmt, 'ser) controller" where
  "queryTimeRanges w = send StatementsTimeRangesGet w"

definition queryTimeRanges_resume ::
  "StatementTimeRange list settled \<Rightarrow> ('tr, 'stmt, 'ser) controller \<Rightarrow>
   ('tr, 'stmt, 'ser) controller" where
  "queryTimeRanges_resume r w =
     (case r of
        Fulfilled res \<Rightarrow>
          w\<lparr>allTimeRanges := dataOr res [],
            allTimeRangesRef := nextRef w,
            nextRef := Suc (nextRef w)\<rparr>
      | Rejected e \<Rightarrow> w\<lparr>errors := errors w @ [e]\<rparr>)"

definition queryStmtTypes ::
  "('tr, 'stmt, 'ser) controller \<Rightarrow> ('tr, 'stmt, 'ser) controller" where
  "queryStmtTypes w = send StatementsStmtTypesGet w"

definition queryStmtTypes_resume ::
  "string list settled \<Rightarrow> ('tr, 'stmt, 'ser) controller \<Rightarrow> ('tr, 'stmt, 'ser) controller" where
  "queryStmtTypes_resume r w =
     (case r of
        Fulfilled res \<Rightarrow> w\<lparr>allStmtTypes := dataOr res []\<rparr>
      | Rejected e \<Rightarrow> w\<lparr>errors := errors w @ [e]\<rparr>)"

text \<open>The body of the first effect: the four calls are started one after the other, none awaited.\<close>

definition metadataEffect ::
  "('tr, 'stmt, 'ser) controller \<Rightarrow> ('tr, 'stmt, 'ser) controller" where
  "metadataEffect w =
     queryStmtTypes (queryTimeRanges (querySchemas (queryStatementStatus w)))"

subsection \<open>The statement list loader\<close>

definition queryStatementList ::
  "('tr, 'ser) env \<Rightarrow> ('tr, 'stmt, 'ser) controller \<Rightarrow> ('tr, 'stmt, 'ser) controller" where
  "queryStatementList env w =
     (if length (allTimeRanges w) = 0
      then w\<lparr>statements := [], loadingStatements := False\<rparr>
      else send
             (StatementsListGet
                (begin_time (validTimeRange env w))
                (end_time (validTimeRange env w))
                (selectedFields env w)
                (schemas (queryOptions w))
                (stmtTypes (queryOptions w))
                (searchText (queryOptions w)))
             (w\<lparr>loadingStatements := True\<rparr>))"

definition queryStatementList_resume ::
  "'stmt list settled \<Rightarrow> ('tr, 'stmt, 'ser) controller \<Rightarrow> ('tr, 'stmt, 'ser) controller" where
  "queryStatementList_resume r w =
     (let w1 = (case r of
                  Fulfilled res \<Rightarrow> w\<lparr>statements := dataOr res [], errors := []\<rparr>
                | Rejected e \<Rightarrow> w\<lparr>errors := errors w @ [e]\<rparr>)
      in w1\<lparr>loadingStatements := False\<rparr>)"

subsection \<open>The CSV export\<close>

definition downloadCSV ::
  "('tr, 'ser) env \<Rightarrow> ('tr, 'stmt, 'ser) controller \<Rightarrow> ('tr, 'stmt, 'ser) controller" where
  "downloadCSV env w =
     send
       (StatementsDownloadTokenPost
          (begin_time (validTimeRange env w))
          (end_time (validTimeRange env w))
          ''*''
          (schemas (queryOptions w))
          (stmtTypes (queryOptions w))
          (searchText (queryOptions w)))
       (w\<lparr>downloading := True\<rparr>)"

text \<open>
  The rest of the \<open>try\<close> block once the token call has settled: a rejection is rethrown,
  \<open>res.data\<close> without a response object throws, and the browser is sent to the
  download URL only for a truthy (present and non-empty) token.
\<close>

definition downloadCSV_try ::
  "('tr, 'ser) env \<Rightarrow> string settled \<Rightarrow> ('tr, 'stmt, 'ser) controller \<Rightarrow>
   (error + unit) \<times> ('tr, 'stmt, 'ser) controller" where
  "downloadCSV_try env r w =
     (case r of
        Rejected e \<Rightarrow> (Inl e, w)
      | Fulfilled None \<Rightarrow> (Inl (TypeError ''data''), w)
      | Fulfilled (Some res) \<Rightarrow>
          (case data res of
             None \<Rightarrow> (Inr (), w)
           | Some token \<Rightarrow>
               (if token \<noteq> ''''
                then (Inr (),
                      w\<lparr>href := Some (getBasePath env @ ''/statements/download?token='' @ token)\<rparr>)
                else (Inr (), w))))"

text \<open>The \<open>finally\<close> block runs on every path; then the promise settles with the result.\<close>

definition downloadCSV_resume ::
  "('tr, 'ser) env \<Rightarrow> string settled \<Rightarrow> ('tr, 'stmt, 'ser) controller \<Rightarrow>
   ('tr, 'stmt, 'ser) controller" where
  "downloadCSV_resume env r w =
     (case downloadCSV_try env r w of
        (result, w1) \<Rightarrow>
          (let w2 = w1\<lparr>downloading := False\<rparr>
           in w2\<lparr>downloadResults := downloadResults w2 @ [result]\<rparr>))"

subsection \<open>Rendering, effects and events\<close>

text \<open>
  The dependency array of the second effect is
  \<open>[queryOptions, allTimeRanges, validTimeRange, selectedFields]\<close>. The first two are
  compared by identity, the last is a string. \<open>validTimeRange\<close> is a memo over the
  first two, so it changes only when one of them does and adds nothing to the
  comparison.
\<close>

definition listDepsOf ::
  "('tr, 'ser) env \<Rightarrow> ('tr, 'stmt, 'ser) controller \<Rightarrow> nat \<times> nat \<times> string" where
  "listDepsOf env w = (queryOptionsRef w, allTimeRangesRef w, selectedFields env w)"

text \<open>
  After a render the effects run in the order of their declaration, each only when its
  dependency array differs from the one it last ran with. The first effect depends on
  \<open>[refreshTimes]\<close> alone.
\<close>

definition runEffects ::
  "('tr, 'ser) env \<Rightarrow> ('tr, 'stmt, 'ser) controller \<Rightarrow> ('tr, 'stmt, 'ser) controller" where
  "runEffects env w =
     (let w1 = (if metadataDeps w = Some (refreshTimes w) then w
                else metadataEffect (w\<lparr>metadataDeps := Some (refreshTimes w)\<rparr>));
          w2 = (if listDeps w1 = Some (listDepsOf env w1) then w1
                else queryStatementList env (w1\<lparr>listDeps := Some (listDepsOf env w1)\<rparr>))
      in w2)"

text \<open>The first render of a controller, in a browser session with the given storage.\<close>

definition initial ::
  "('tr, 'ser) env \<Rightarrow> IColumnKeys \<Rightarrow> bool \<Rightarrow> 'tr IStatementQueryOptions option \<Rightarrow> bool \<Rightarrow>
   (string \<rightharpoonup> 'ser) \<Rightarrow> ('tr, 'stmt, 'ser) controller" where
  "initial env keys full options save storage =
     (let opts = (case options of None \<Rightarrow> DEF_STMT_QUERY_OPTIONS env | Some x \<Rightarrow> x)
      in \<lparr>visibleColumnKeys = keys,
          showFullSQL = full,
          needSave = save,
          orderOptions = DEF_ORDER_OPTIONS,
          memoryQueryOptions = opts,
          memoryQueryOptionsRef = 0,
          sessionQueryOptions = useSessionStorageState env storage QUERY_OPTIONS opts,
          sessionQueryOptionsRef = 1,
          enable = Some True,
          allTimeRanges = [],
          allTimeRangesRef = 2,
          allSchemas = [],
          allStmtTypes = [],
          loadingStatements = True,
          statements = [],
          refreshTimes = 0,
          errors = [],
          downloading = False,
          metadataDeps = None,
          listDeps = None,
          sessionStorage = storage,
          href = None,
          pending = Map.empty,
          nextId = 0,
          issued = [],
          nextRef = 3,
          downloadResults = []\<rparr>)"

definition mount ::
  "('tr, 'ser) env \<Rightarrow> IColumnKeys \<Rightarrow> bool \<Rightarrow> 'tr IStatementQueryOptions option \<Rightarrow> bool \<Rightarrow>
   (string \<rightharpoonup> 'ser) \<Rightarrow> ('tr, 'stmt, 'ser) controller" where
  "mount env keys full options save storage =
     runEffects env (initial env keys full options save storage)"

text \<open>The continuation of a pending call; a response of another call's type is no event.\<close>

fun resume ::
  "('tr, 'ser) env \<Rightarrow> request \<Rightarrow> 'stmt response \<Rightarrow> ('tr, 'stmt, 'ser) controller \<Rightarrow>
   ('tr, 'stmt, 'ser) controller option" where
  "resume env StatementsConfigGet (ConfigResponse r) w = Some (queryStatementStatus_resume r w)"
| "resume env InfoListDatabases (DatabasesResponse r) w = Some (querySchemas_resume r w)"
| "resume env StatementsTimeRangesGet (TimeRangesResponse r) w = Some (queryTimeRanges_resume r w)"
| "resume env StatementsStmtTypesGet (StmtTypesResponse r) w = Some (queryStmtTypes_resume r w)"
| "resume env (StatementsListGet b e f s t x) (ListResponse r) w =
     Some (queryStatementList_resume r w)"
| "resume env (StatementsDownloadTokenPost b e f s t x) (TokenResponse r) w =
     Some (downloadCSV_resume env r w)"
| "resume env _ _ w = None"

fun step ::
  "('tr, 'ser) env \<Rightarrow> ('tr, 'stmt) event \<Rightarrow> ('tr, 'stmt, 'ser) controller \<Rightarrow>
   ('tr, 'stmt, 'ser) controller option" where
  "step env (SetQueryOptions x) w = Some (runEffects env (setQueryOptions env x w))"
| "step env Refresh w = Some (runEffects env (refresh w))"
| "step env (ChangeOrder ob d) w = Some (runEffects env (changeOrder ob d w))"
| "step env (Rerender keys full) w =
     Some (runEffects env (w\<lparr>visibleColumnKeys := keys, showFullSQL := full\<rparr>))"
| "step env DownloadCSV w = Some (runEffects env (downloadCSV env w))"
| "step env (Settle i r) w =
     (case pending w i of
        None \<Rightarrow> None
      | Some q \<Rightarrow>
          (case resume env q r (w\<lparr>pending := (pending w)(i := None)\<rparr>) of
             None \<Rightarrow> None
           | Some w' \<Rightarrow> Some (runEffects env w')))"

text \<open>
  Events whose state updates React commits in one render (the calls made by one
  handler). The operations called in a handler are the closures of the last render:
  \<open>downloadCSV\<close> reads \<open>validTimeRange\<close> and \<open>queryOptions\<close> from that render
  (\<open>snap\<close>), whatever the handler has set before; the other operations only write, and
  their updates apply in order. The effects run once, after the last update.
\<close>

definition downloadCSV_in ::
  "('tr, 'ser) env \<Rightarrow> ('tr, 'stmt, 'ser) controller \<Rightarrow> ('tr, 'stmt, 'ser) controller \<Rightarrow>
   ('tr, 'stmt, 'ser) controller" where
  "downloadCSV_in env snap w =
     send
       (StatementsDownloadTokenPost
          (begin_time (validTimeRange env snap))
          (end_time (validTimeRange env snap))
          ''*''
          (schemas (queryOptions snap))
          (stmtTypes (queryOptions snap))
          (searchText (queryOptions snap)))
       (w\<lparr>downloading := True\<rparr>)"

fun update ::
  "('tr, 'ser) env \<Rightarrow> ('tr, 'stmt, 'ser) controller \<Rightarrow> ('tr, 'stmt) event \<Rightarrow>
   ('tr, 'stmt, 'ser) controller \<Rightarrow> ('tr, 'stmt, 'ser) controller option" where
  "update env snap (SetQueryOptions x) w = Some (setQueryOptions env x w)"
| "update env snap Refresh w = Some (refresh w)"
| "update env snap (ChangeOrder ob d) w = Some (changeOrder ob d w)"
| "update env snap (Rerender keys full) w =
     Some (w\<lparr>visibleColumnKeys := keys, showFullSQL := full\<rparr>)"
| "update env snap DownloadCSV w = Some (downloadCSV_in env snap w)"
| "update env snap (Settle i r) w =
     (case pending w i of
        None \<Rightarrow> None
      | Some q \<Rightarrow> resume env q r (w\<lparr>pending := (pending w)(i := None)\<rparr>))"

fun updates ::
  "('tr, 'ser) env \<Rightarrow> ('tr, 'stmt, 'ser) controller \<Rightarrow> ('tr, 'stmt) event list \<Rightarrow>
   ('tr, 'stmt, 'ser) controller \<Rightarrow> ('tr, 'stmt, 'ser) controller option" where
  "updates env snap [] w = Some w"
| "updates env snap (ev # evs) w =
     (case update env snap ev w of None \<Rightarrow> None | Some w' \<Rightarrow> updates env snap evs w')"

definition batch ::
  "('tr, 'ser) env \<Rightarrow> ('tr, 'stmt) event list \<Rightarrow> ('tr, 'stmt, 'ser) controller \<Rightarrow>
   ('tr, 'stmt, 'ser) controller option" where
  "batch env evs w =
     (case updates env w evs w of None \<Rightarrow> None | Some w' \<Rightarrow> Some (runEffects env w'))"

fun runBatches ::
  "('tr, 'ser) env \<Rightarrow> ('tr, 'stmt) event list list \<Rightarrow> ('tr, 'stmt, 'ser) controller \<Rightarrow>
   ('tr, 'stmt, 'ser) controller option" where
  "runBatches env [] w = Some w"
| "runBatches env (evs # bs) w =
     (case batch env evs w of None \<Rightarrow> None | Some w' \<Rightarrow> runBatches env bs w')"

subsection \<open>Vocabulary of the properties\<close>

text \<open>
  A state is committed when both effects have run for its current dependencies, which
  is the case after every render: the first, and the one that follows an event or a
  batch of events.
\<close>

definition committed :: "('tr, 'ser) env \<Rightarrow> ('tr, 'stmt, 'ser) controller \<Rightarrow> bool" where
  "committed env w \<longleftrightarrow>
     metadataDeps w = Some (refreshTimes w) \<and> listDeps w = Some (listDepsOf env w)"

definition metadataRequests :: "request list" where
  "metadataRequests =
     [StatementsConfigGet, InfoListDatabases, StatementsTimeRangesGet, StatementsStmtTypesGet]"

definition isMetadata :: "request \<Rightarrow> bool" where
  "isMetadata q \<longleftrightarrow> q \<in> set metadataRequests"

definition metadata ::
  "('tr, 'stmt, 'ser) controller \<Rightarrow>
   bool option \<times> string list \<times> StatementTimeRange list \<times> string list" where
  "metadata w = (enable w, allSchemas w, allTimeRanges w, allStmtTypes w)"

subsection \<open>A concrete environment and controller\<close>

text \<open>
  An environment in which time ranges are numbers of seconds and the stored form of the
  query options is the value itself; a controller freshly mounted in it with session
  persistence; and the same controller once it shows one statement and one error.
\<close>

definition exampleEnv :: "(nat, nat IStatementQueryOptions) env" where
  "exampleEnv =
     \<lparr>calcValidStatementTimeRange =
        (\<lambda>tr known. case known of [] \<Rightarrow> \<lparr>begin_time = None, end_time = None\<rparr> | k # ks \<Rightarrow> k),
      DEFAULT_TIME_RANGE = 1800,
      getSelectedFields = (\<lambda>keys. ''digest'' # map fst (filter snd keys)),
      getBasePath = ''/dashboard/api'',
      stringify = (\<lambda>x. x),
      parse = (\<lambda>x. x)\<rparr>"

definition freshController :: "(nat, string, nat IStatementQueryOptions) controller" where
  "freshController = mount exampleEnv [(''digest_text'', True)] False None True Map.empty"

definition exampleController :: "(nat, string, nat IStatementQueryOptions) controller" where
  "exampleController =
     freshController\<lparr>statements := [''select 1''], errors := [RequestError ''timeout'']\<rparr>"

definition exampleOptions :: "nat IStatementQueryOptions" where
  "exampleOptions = \<lparr>timeRange = 60, schemas = [''test''], stmtTypes = [], searchText = ''''\<rparr>"

definition exampleBatches :: "(nat, string) event list list" where
  "exampleBatches =
     [[SetQueryOptions exampleOptions],
      [Refresh, Refresh],
      [Rerender [(''plan_count'', True)] True],
      [Settle 2 (TimeRangesResponse (Fulfilled (Some (AxiosResponse
         (Some [\<lparr>begin_time = Some 10, end_time = Some 20\<rparr>])))))],
      [ChangeOrder ''exec_count'' False, Refresh, DownloadCSV]]"

text \<open>
  An environment whose storage hook serialises as JSON does. The time range is a
  JavaScript number; \<open>JSON.stringify\<close> writes a number that is not finite as
  \<open>null\<close>, and \<open>JSON.parse\<close> reads \<open>null\<close> back as \<open>null\<close>.
\<close>

datatype jsNumber = JsInt int | JsNaN | JsNull

datatype storedOptions = StoredOptions "int option" "string list" "string list" string

definition jsonStringify :: "jsNumber IStatementQueryOptions \<Rightarrow> storedOptions" where
  "jsonStringify x =
     StoredOptions
       (case timeRange x of JsInt n \<Rightarrow> Some n | JsNaN \<Rightarrow> None | JsNull \<Rightarrow> None)
       (schemas x) (stmtTypes x) (searchText x)"

definition jsonParse :: "storedOptions \<Rightarrow> jsNumber IStatementQueryOptions" where
  "jsonParse s =
     (case s of
        StoredOptions t a b c \<Rightarrow>
          \<lparr>timeRange = (case t of None \<Rightarrow> JsNull | Some n \<Rightarrow> JsInt n),
           schemas = a, stmtTypes = b, searchText = c\<rparr>)"

definition jsonEnv :: "(jsNumber, storedOptions) env" where
  "jsonEnv =
     \<lparr>calcValidStatementTimeRange =
        (\<lambda>tr known. case known of [] \<Rightarrow> \<lparr>begin_time = None, end_time = None\<rparr> | k # ks \<Rightarrow> k),
      DEFAULT_TIME_RANGE = JsInt 1800,
      getSelectedFields = (\<lambda>keys. ''digest'' # map fst (filter snd keys)),
      getBasePath = ''/dashboard/api'',
      stringify = jsonStringify,
      parse = jsonParse\<rparr>"

definition jsonController :: "(jsNumber, string, storedOptions) controller" where
  "jsonController = mount jsonEnv [(''digest_text'', True)] False None True Map.empty"

definition finiteOptions :: "jsNumber IStatementQueryOptions" where
  "finiteOptions =
     \<lparr>timeRange = JsInt 60, schemas = [''test''], stmtTypes = [''select''], searchText = ''x''\<rparr>"

definition nanOptions :: "jsNumber IStatementQueryOptions" where
  "nanOptions = \<lparr>timeRange = JsNaN, schemas = [], stmtTypes = [], searchText = ''''\<rparr>"

section \<open>Properties\<close>

subsection \<open>Effects preserve what they do not write\<close>

lemmas start_defs =
  send_def queryStatementStatus_def querySchemas_def queryTimeRanges_def queryStmtTypes_def
  metadataEffect_def queryStatementList_def

lemmas resume_defs =
  queryStatementStatus_resume_def querySchemas_resume_def queryTimeRanges_resume_def
  queryStmtTypes_resume_def queryStatementList_resume_def downloadCSV_resume_def
  downloadCSV_try_def

lemmas derived_defs =
  listDepsOf_def queryOptionsRef_def queryOptions_def selectedFields_def validTimeRange_def

lemmas setter_defs =
  setQueryOptions_def setSessionQueryOptions_def setMemoryQueryOptions_def refresh_def
  changeOrder_def

lemma runEffects_committed: "committed env w \<Longrightarrow> runEffects env w = w"
  by (simp add: committed_def runEffects_def)

lemma committed_runEffects: "committed env (runEffects env w)"
  by (simp add: committed_def runEffects_def Let_def start_defs derived_defs)

lemma committed_mount: "committed env (mount env keys full options save storage)"
  by (simp add: mount_def committed_runEffects)

lemma committed_step: "step env ev w = Some w' \<Longrightarrow> committed env w'"
  by (cases ev) (auto simp: committed_runEffects split: option.splits)

lemma committed_batch: "batch env evs w = Some w' \<Longrightarrow> committed env w'"
  by (auto simp: batch_def committed_runEffects split: option.splits)

lemma runEffects_errors: "errors (runEffects env w) = errors w"
  by (simp add: runEffects_def Let_def start_defs)

lemma runEffects_metadataDeps: "metadataDeps (runEffects env w) = Some (refreshTimes w)"
  by (simp add: runEffects_def Let_def start_defs)

lemma runEffects_refreshTimes: "refreshTimes (runEffects env w) = refreshTimes w"
  by (simp add: runEffects_def Let_def start_defs)

lemma runEffects_metadata:
  "enable (runEffects env w) = enable w"
  "allSchemas (runEffects env w) = allSchemas w"
  "allTimeRanges (runEffects env w) = allTimeRanges w"
  "allStmtTypes (runEffects env w) = allStmtTypes w"
  by (simp_all add: runEffects_def Let_def start_defs)

lemma runEffects_metadata_tuple: "metadata (runEffects env w) = metadata w"
  by (simp add: metadata_def runEffects_metadata)

lemma runEffects_sessionStorage: "sessionStorage (runEffects env w) = sessionStorage w"
  by (simp add: runEffects_def Let_def start_defs)

lemma runEffects_queryOptions: "queryOptions (runEffects env w) = queryOptions w"
  by (simp add: runEffects_def Let_def start_defs queryOptions_def)

lemma mount_queryOptions:
  "queryOptions (mount env keys full options save storage) =
     (if save
      then useSessionStorageState env storage QUERY_OPTIONS
             (case options of None \<Rightarrow> DEF_STMT_QUERY_OPTIONS env | Some y \<Rightarrow> y)
      else (case options of None \<Rightarrow> DEF_STMT_QUERY_OPTIONS env | Some y \<Rightarrow> y))"
  unfolding mount_def runEffects_queryOptions
  by (simp add: initial_def Let_def queryOptions_def)

text \<open>
  In a committed state the settlement of a statement list call or of a token call is the
  continuation alone: it changes no dependency, so no effect follows.
\<close>

lemma step_Settle_list:
  assumes "committed env w" and "pending w i = Some (StatementsListGet b e f s t x)"
  shows "step env (Settle i (ListResponse r)) w =
           Some (queryStatementList_resume r (w\<lparr>pending := (pending w)(i := None)\<rparr>))"
proof -
  from assms(1)
  have "committed env (queryStatementList_resume r (w\<lparr>pending := (pending w)(i := None)\<rparr>))"
    by (cases r) (simp_all add: committed_def derived_defs queryStatementList_resume_def)
  with assms(2) show ?thesis
    by (simp add: runEffects_committed)
qed

lemma step_Settle_token:
  assumes "committed env w" and "pending w i = Some (StatementsDownloadTokenPost b e f s t x)"
  shows "step env (Settle i (TokenResponse r)) w =
           Some (downloadCSV_resume env r (w\<lparr>pending := (pending w)(i := None)\<rparr>))"
proof -
  from assms(1)
  have "committed env (downloadCSV_resume env r (w\<lparr>pending := (pending w)(i := None)\<rparr>))"
    by (auto simp: committed_def derived_defs downloadCSV_resume_def downloadCSV_try_def
        split: settled.splits option.splits)
  with assms(2) show ?thesis
    by (simp add: runEffects_committed)
qed

subsection \<open>Facts about the example controller\<close>

lemma freshController_fields:
  "needSave freshController"
  "enable freshController = Some True"
  "allSchemas freshController = []"
  "allTimeRanges freshController = []"
  "allStmtTypes freshController = []"
  "loadingStatements freshController = False"
  "href freshController = None"
  "downloadResults freshController = []"
  "issued freshController = metadataRequests"
  "metadataDeps freshController = Some 0"
  "refreshTimes freshController = 0"
  "nextId freshController = 4"
  "pending freshController 0 = Some StatementsConfigGet"
  "pending freshController (Suc 0) = Some InfoListDatabases"
  "pending freshController 2 = Some StatementsTimeRangesGet"
  "pending freshController 3 = Some StatementsStmtTypesGet"
  by (simp_all add: freshController_def mount_def initial_def runEffects_def Let_def
      start_defs metadataRequests_def)

lemma exampleController_fields:
  "needSave exampleController"
  "enable exampleController = Some True"
  "allSchemas exampleController = []"
  "allTimeRanges exampleController = []"
  "allStmtTypes exampleController = []"
  "statements exampleController = [''select 1'']"
  "errors exampleController = [RequestError ''timeout'']"
  "loadingStatements exampleController = False"
  "href exampleController = None"
  "downloadResults exampleController = []"
  "issued exampleController = metadataRequests"
  "metadataDeps exampleController = Some 0"
  "refreshTimes exampleController = 0"
  "nextId exampleController = 4"
  "pending exampleController 0 = Some StatementsConfigGet"
  "pending exampleController (Suc 0) = Some InfoListDatabases"
  "pending exampleController 2 = Some StatementsTimeRangesGet"
  "pending exampleController 3 = Some StatementsStmtTypesGet"
  by (simp_all add: exampleController_def freshController_fields)

lemma committed_statements_errors:
  "committed env w \<Longrightarrow> committed env (w\<lparr>statements := rows, errors := es\<rparr>)"
  by (simp add: committed_def derived_defs)

lemma exampleController_committed: "committed exampleEnv exampleController"
  unfolding exampleController_def freshController_def
  by (rule committed_statements_errors [OF committed_mount])

subsection \<open>The statement list loader\<close>

text \<open>
  C1. In every state whose list of known time ranges is empty, the statement list loader
  sets \<open>statements\<close> to the empty list and \<open>loadingStatements\<close> to false, issues no
  remote call (nothing is added to the log of issued calls or to the pending calls),
  and leaves the error list as it was.
\<close>

theorem queryStatementList_no_time_ranges:
  assumes "allTimeRanges w = []"
  shows "statements (queryStatementList env w) = [] \<and>
         loadingStatements (queryStatementList env w) = False \<and>
         issued (queryStatementList env w) = issued w \<and>
         pending (queryStatementList env w) = pending w \<and>
         errors (queryStatementList env w) = errors w"
  using assms by (simp add: queryStatementList_def)

theorem queryStatementList_no_time_ranges_witness:
  "allTimeRanges exampleController = [] \<and>
   statements exampleController = [''select 1''] \<and>
   statements (queryStatementList exampleEnv exampleController) = [] \<and>
   loadingStatements (queryStatementList exampleEnv exampleController) = False \<and>
   issued (queryStatementList exampleEnv exampleController) = issued exampleController \<and>
   pending (queryStatementList exampleEnv exampleController) = pending exampleController \<and>
   errors (queryStatementList exampleEnv exampleController) = [RequestError ''timeout'']"
proof -
  have h: "allTimeRanges exampleController = []"
    by (rule exampleController_fields)
  show ?thesis
    using h queryStatementList_no_time_ranges [OF h, of exampleEnv]
    by (simp add: exampleController_fields)
qed

text \<open>
  C2. When the statement list call is fulfilled, \<open>statements\<close> becomes the payload of
  the response (the empty list when the response or its payload is absent) and the
  error list becomes empty. When it is rejected, the error is appended to the error
  list, whose earlier entries stay, and \<open>statements\<close> keeps its value.
\<close>

theorem queryStatementList_resume_outcome:
  "statements (queryStatementList_resume (Fulfilled (Some (AxiosResponse (Some rows)))) w) = rows \<and>
   statements (queryStatementList_resume (Fulfilled (Some (AxiosResponse None))) w) = [] \<and>
   statements (queryStatementList_resume (Fulfilled None) w) = [] \<and>
   errors (queryStatementList_resume (Fulfilled res) w) = [] \<and>
   errors (queryStatementList_resume (Rejected e) w) = errors w @ [e] \<and>
   statements (queryStatementList_resume (Rejected e) w) = statements w"
  by (simp add: queryStatementList_resume_def dataOr_def)



subsection \<open>The CSV export\<close>


text \<open>
  C10. When the token call is fulfilled with a response whose token is absent or the
  empty string, the browser is not sent anywhere, the error list is unchanged, the
  promise returned by \<open>downloadCSV\<close> is fulfilled, and \<open>downloading\<close> is false.
\<close>

theorem downloadCSV_no_token:
  assumes "data res = None \<or> data res = Some ''''"
  shows "href (downloadCSV_resume env (Fulfilled (Some res)) w) = href w \<and>
         errors (downloadCSV_resume env (Fulfilled (Some res)) w) = errors w \<and>
         downloadResults (downloadCSV_resume env (Fulfilled (Some res)) w) =
           downloadResults w @ [Inr ()] \<and>
         downloading (downloadCSV_resume env (Fulfilled (Some res)) w) = False"
  using assms
  by (auto simp: downloadCSV_resume_def downloadCSV_try_def Let_def)

theorem downloadCSV_no_token_witness:
  "data (AxiosResponse (Some '''')) = Some '''' \<and>
   href (downloadCSV_resume exampleEnv (Fulfilled (Some (AxiosResponse (Some ''''))))
           exampleController) = None \<and>
   errors (downloadCSV_resume exampleEnv (Fulfilled (Some (AxiosResponse (Some ''''))))
             exampleController) = [RequestError ''timeout''] \<and>
   downloadResults (downloadCSV_resume exampleEnv (Fulfilled (Some (AxiosResponse (Some ''''))))
                      exampleController) = [Inr ()] \<and>
   downloading (downloadCSV_resume exampleEnv (Fulfilled (Some (AxiosResponse (Some ''''))))
                  exampleController) = False"
proof -
  have h: "data (AxiosResponse (Some '''')) = None \<or> data (AxiosResponse (Some '''')) = Some ''''"
    by simp
  show ?thesis
    using downloadCSV_no_token [OF h, of exampleEnv exampleController]
    by (simp add: exampleController_fields)
qed

subsection \<open>Persisted query options\<close>

lemma setQueryOptions_then_mount:
  fixes w :: "('tr, 'stmt, 'ser) controller"
  assumes "needSave w" and "step env (SetQueryOptions x) w = Some w'"
  shows "queryOptions w' = x"
    and "sessionStorage w' QUERY_OPTIONS = Some (stringify env x)"
    and "queryOptions
           (mount env keys full options True (sessionStorage w')
            :: ('tr, 'stmt, 'ser) controller) = parse env (stringify env x)"
proof -
  from assms(2) have w': "w' = runEffects env (setQueryOptions env x w)"
    by simp
  have "queryOptions w' = queryOptions (setQueryOptions env x w)"
    by (simp add: w' runEffects_queryOptions)
  also have "\<dots> = x"
    using assms(1) by (simp add: setter_defs queryOptions_def)
  finally show "queryOptions w' = x" .
  show b: "sessionStorage w' QUERY_OPTIONS = Some (stringify env x)"
    using assms(1) by (simp add: w' runEffects_sessionStorage setter_defs)
  show "queryOptions
          (mount env keys full options True (sessionStorage w')
           :: ('tr, 'stmt, 'ser) controller) = parse env (stringify env x)"
    by (simp add: mount_queryOptions useSessionStorageState_def b)
qed

text \<open>
  C9, as the code has it. Let a controller with session persistence call
  \<open>setQueryOptions x\<close>. Then its own \<open>queryOptions\<close> is \<open>x\<close>, the serialised \<open>x\<close>
  is stored under the key \<open>statement.query_options\<close>, and a controller constructed
  afterwards in the same session with session persistence has as \<open>queryOptions\<close>
  what the storage hook reads back from the stored value, whatever its arguments. So
  it has \<open>queryOptions = x\<close> for every \<open>x\<close> that the hook reads back as it was
  written.
\<close>

theorem queryOptions_roundtrip:
  fixes w :: "('tr, 'stmt, 'ser) controller"
  assumes "needSave w" and "step env (SetQueryOptions x) w = Some w'"
  shows "queryOptions w' = x \<and>
         sessionStorage w' ''statement.query_options'' = Some (stringify env x) \<and>
         queryOptions
           (mount env keys full options True (sessionStorage w')
            :: ('tr, 'stmt, 'ser) controller) = parse env (stringify env x) \<and>
         (parse env (stringify env x) = x \<longrightarrow>
          queryOptions
            (mount env keys full options True (sessionStorage w')
             :: ('tr, 'stmt, 'ser) controller) = x)"
proof -
  note f = setQueryOptions_then_mount [OF assms]
  from f(2) have "sessionStorage w' ''statement.query_options'' = Some (stringify env x)"
    by (simp add: QUERY_OPTIONS_def)
  with f(1) f(3) show ?thesis
    by simp
qed

lemma jsonController_needSave: "needSave jsonController"
  by (simp add: jsonController_def mount_def initial_def runEffects_def Let_def start_defs)

lemma jsonController_queryOptions:
  "queryOptions jsonController = DEF_STMT_QUERY_OPTIONS jsonEnv"
  by (simp add: jsonController_def mount_queryOptions useSessionStorageState_def)

lemma jsonController_setQueryOptions:
  "step jsonEnv (SetQueryOptions x) jsonController =
     Some (the (step jsonEnv (SetQueryOptions x) jsonController))"
  by simp

theorem queryOptions_roundtrip_witness:
  "needSave jsonController \<and>
   parse jsonEnv (stringify jsonEnv finiteOptions) = finiteOptions \<and>
   queryOptions jsonController \<noteq> finiteOptions \<and>
   sessionStorage (the (step jsonEnv (SetQueryOptions finiteOptions) jsonController))
     ''statement.query_options'' =
     Some (StoredOptions (Some 60) [''test''] [''select''] ''x'') \<and>
   queryOptions
     (mount jsonEnv [] True None True
        (sessionStorage (the (step jsonEnv (SetQueryOptions finiteOptions) jsonController)))
      :: (jsNumber, string, storedOptions) controller) = finiteOptions"
proof -
  have p: "parse jsonEnv (stringify jsonEnv finiteOptions) = finiteOptions"
    by (simp add: jsonEnv_def jsonStringify_def jsonParse_def finiteOptions_def)
  have s: "stringify jsonEnv finiteOptions = StoredOptions (Some 60) [''test''] [''select''] ''x''"
    by (simp add: jsonEnv_def jsonStringify_def finiteOptions_def)
  have d: "queryOptions jsonController \<noteq> finiteOptions"
    by (simp add: jsonController_queryOptions DEF_STMT_QUERY_OPTIONS_def finiteOptions_def)
  show ?thesis
    using p d jsonController_needSave
      queryOptions_roundtrip
        [OF jsonController_needSave jsonController_setQueryOptions [of finiteOptions],
         of "[]" True None]
    by (simp del: step.simps add: s)
qed

text \<open>
  The claim C9 as it is written promises the round trip for every value of the query
  options. A time range that is not a number is stored as \<open>null\<close>: the controller
  that set it has it, the controller constructed afterwards does not.
\<close>

theorem queryOptions_roundtrip_counterexample:
  "needSave jsonController \<and>
   queryOptions (the (step jsonEnv (SetQueryOptions nanOptions) jsonController)) = nanOptions \<and>
   queryOptions
     (mount jsonEnv [(''digest_text'', True)] False None True
        (sessionStorage (the (step jsonEnv (SetQueryOptions nanOptions) jsonController)))
      :: (jsNumber, string, storedOptions) controller) \<noteq> nanOptions"
proof -
  note f = setQueryOptions_then_mount
    [OF jsonController_needSave jsonController_setQueryOptions [of nanOptions]]
  have "parse jsonEnv (stringify jsonEnv nanOptions) \<noteq> nanOptions"
    by (simp add: jsonEnv_def jsonStringify_def jsonParse_def nanOptions_def)
  with f(1) f(3) [of "[(''digest_text'', True)]" False None] jsonController_needSave
  show ?thesis
    by (simp del: step.simps)
qed

subsection \<open>Refresh and the metadata loader\<close>

text \<open>
  C5. \<open>refresh\<close> itself empties the error list. After the event, the error list is
  still empty while the four metadata calls that the refresh triggered are pending, so
  none of them has completed or added an error yet.
\<close>

theorem refresh_clears_errors:
  assumes "metadataDeps w = Some (refreshTimes w)" and "step env Refresh w = Some w'"
  shows "errors (refresh w) = [] \<and> errors w' = [] \<and>
         pending w' (nextId w) = Some StatementsConfigGet \<and>
         pending w' (nextId w + 1) = Some InfoListDatabases \<and>
         pending w' (nextId w + 2) = Some StatementsTimeRangesGet \<and>
         pending w' (nextId w + 3) = Some StatementsStmtTypesGet"
  using assms
  by (auto simp: refresh_def runEffects_def Let_def start_defs)

lemma exampleController_refresh:
  "step exampleEnv Refresh exampleController =
     Some (the (step exampleEnv Refresh exampleController))"
  by simp

theorem refresh_clears_errors_witness:
  "metadataDeps exampleController = Some (refreshTimes exampleController) \<and>
   errors exampleController = [RequestError ''timeout''] \<and>
   errors (refresh exampleController) = [] \<and>
   errors (the (step exampleEnv Refresh exampleController)) = [] \<and>
   pending (the (step exampleEnv Refresh exampleController)) 4 = Some StatementsConfigGet \<and>
   pending (the (step exampleEnv Refresh exampleController)) 5 = Some InfoListDatabases \<and>
   pending (the (step exampleEnv Refresh exampleController)) 6 = Some StatementsTimeRangesGet \<and>
   pending (the (step exampleEnv Refresh exampleController)) 7 = Some StatementsStmtTypesGet"
proof -
  have d: "metadataDeps exampleController = Some (refreshTimes exampleController)"
    by (simp add: exampleController_fields)
  show ?thesis
    using d refresh_clears_errors [OF d exampleController_refresh]
    by (simp del: step.simps add: exampleController_fields)
qed

text \<open>Which events make the metadata effect issue its four calls.\<close>

lemma metadataEffect_issued: "issued (metadataEffect w) = issued w @ metadataRequests"
  by (simp add: start_defs metadataRequests_def)

lemma queryStatementList_issued:
  "filter isMetadata (issued (queryStatementList env w)) = filter isMetadata (issued w)"
  by (simp add: queryStatementList_def send_def isMetadata_def metadataRequests_def)

lemma filter_metadataRequests: "filter isMetadata metadataRequests = metadataRequests"
  by (simp add: isMetadata_def metadataRequests_def)

lemma runEffects_issued:
  "filter isMetadata (issued (runEffects env w)) =
     filter isMetadata (issued w) @
       (if metadataDeps w = Some (refreshTimes w) then [] else metadataRequests)"
  by (simp add: runEffects_def Let_def queryStatementList_issued metadataEffect_issued
      filter_metadataRequests)

lemma resume_untouched:
  assumes "resume env q r w = Some w'"
  shows "refreshTimes w' = refreshTimes w \<and> metadataDeps w' = metadataDeps w \<and>
         issued w' = issued w"
  using assms
  by (cases "(env, q, r, w)" rule: resume.cases)
     (auto simp: resume_defs Let_def split: settled.splits option.splits if_splits prod.splits)

lemma update_untouched:
  assumes "update env snap ev w = Some w'"
  shows "metadataDeps w' = metadataDeps w \<and>
         refreshTimes w' = refreshTimes w + (if ev = Refresh then 1 else 0) \<and>
         filter isMetadata (issued w') = filter isMetadata (issued w)"
proof (cases ev)
  case (Settle i r)
  with assms obtain q where "resume env q r (w\<lparr>pending := (pending w)(i := None)\<rparr>) = Some w'"
    by (auto split: option.splits)
  from resume_untouched [OF this] Settle show ?thesis
    by simp
qed (use assms in \<open>auto simp: setter_defs downloadCSV_in_def send_def isMetadata_def
      metadataRequests_def\<close>)

lemma updates_untouched:
  assumes "updates env snap evs w = Some w'"
  shows "metadataDeps w' = metadataDeps w \<and>
         refreshTimes w' = refreshTimes w + count_list evs Refresh \<and>
         filter isMetadata (issued w') = filter isMetadata (issued w)"
  using assms
proof (induction evs arbitrary: w)
  case Nil
  then show ?case by simp
next
  case (Cons ev evs)
  from Cons.prems obtain w1 where u: "update env snap ev w = Some w1"
    and r: "updates env snap evs w1 = Some w'"
    by (auto split: option.splits)
  from update_untouched [OF u] Cons.IH [OF r] show ?case
    by simp
qed

lemma batch_metadata_issued:
  assumes "metadataDeps w = Some (refreshTimes w)" and "batch env evs w = Some w'"
  shows "metadataDeps w' = Some (refreshTimes w') \<and>
         filter isMetadata (issued w') =
           filter isMetadata (issued w) @ (if Refresh \<in> set evs then metadataRequests else [])"
proof -
  from assms(2) obtain w1 where u: "updates env w evs w = Some w1"
    and w': "w' = runEffects env w1"
    by (auto simp: batch_def split: option.splits)
  from updates_untouched [OF u] assms(1)
  have d: "metadataDeps w1 = Some (refreshTimes w)"
    and t: "refreshTimes w1 = refreshTimes w + count_list evs Refresh"
    and i: "filter isMetadata (issued w1) = filter isMetadata (issued w)"
    by simp_all
  have "metadataDeps w1 = Some (refreshTimes w1) \<longleftrightarrow> Refresh \<notin> set evs"
    by (simp add: d t count_list_0_iff)
  then show ?thesis
    by (simp add: w' runEffects_issued runEffects_metadataDeps runEffects_refreshTimes i)
qed

lemma runBatches_metadata_issued:
  assumes "runBatches env bs w = Some w'" and "metadataDeps w = Some (refreshTimes w)"
  shows "filter isMetadata (issued w') =
           filter isMetadata (issued w) @
             concat (replicate (length (filter (\<lambda>evs. Refresh \<in> set evs) bs)) metadataRequests)"
  using assms
proof (induction bs arbitrary: w)
  case Nil
  then show ?case by simp
next
  case (Cons evs bs)
  from Cons.prems(1) obtain w1 where b: "batch env evs w = Some w1"
    and r: "runBatches env bs w1 = Some w'"
    by (auto split: option.splits)
  from batch_metadata_issued [OF Cons.prems(2) b]
  have d: "metadataDeps w1 = Some (refreshTimes w1)"
    and i: "filter isMetadata (issued w1) =
              filter isMetadata (issued w) @
                (if Refresh \<in> set evs then metadataRequests else [])"
    by simp_all
  from Cons.IH [OF r d] i show ?case
    by simp
qed

lemma mount_metadata_issued:
  "filter isMetadata (issued (mount env keys full options save storage)) = metadataRequests"
  "metadataDeps (mount env keys full options save storage) =
     Some (refreshTimes (mount env keys full options save storage))"
  by (simp_all add: mount_def runEffects_issued runEffects_metadataDeps runEffects_refreshTimes
      initial_def Let_def)

text \<open>An event that is rendered on its own is a batch of one event.\<close>

lemma batch_single: "batch env [ev] w = step env ev w"
  by (cases ev)
     (simp_all add: batch_def downloadCSV_in_def downloadCSV_def split: option.splits)

text \<open>
  C4, as the code has it. Take any sequence of renders after the construction of a
  controller, each committing the updates of any events: calls of \<open>setQueryOptions\<close>,
  \<open>refresh\<close>, \<open>changeOrder\<close> and \<open>downloadCSV\<close>, new column keys, settlements of
  pending calls. The metadata calls issued up to the end of it are the four calls made
  at construction followed by the same four calls once for every render that commits at
  least one \<open>refresh\<close>, and no others: the first effect depends on \<open>refreshTimes\<close>
  alone, only \<open>refresh\<close> writes it, and the effect compares it once per render.
\<close>

theorem metadata_fetches_once_per_refreshing_render:
  assumes "runBatches env bs (mount env keys full options save storage) = Some w"
  shows "filter isMetadata (issued w) =
           concat (replicate (Suc (length (filter (\<lambda>evs. Refresh \<in> set evs) bs)))
             metadataRequests)"
  using runBatches_metadata_issued [OF assms mount_metadata_issued(2)]
  by (simp add: mount_metadata_issued(1))

lemmas example_eval_defs =
  exampleOptions_def freshController_def exampleEnv_def
  mount_def initial_def runEffects_def Let_def start_defs resume_defs derived_defs
  setter_defs useSessionStorageState_def DEF_STMT_QUERY_OPTIONS_def
  DEF_ORDER_OPTIONS_def QUERY_OPTIONS_def dataOr_def batch_def downloadCSV_in_def

lemma exampleBatches_run: "runBatches exampleEnv exampleBatches freshController \<noteq> None"
  by (simp add: exampleBatches_def example_eval_defs)

theorem metadata_fetches_once_per_refreshing_render_witness:
  "runBatches exampleEnv exampleBatches freshController \<noteq> None \<and>
   count_list (concat exampleBatches) Refresh = 3 \<and>
   filter isMetadata (issued (the (runBatches exampleEnv exampleBatches freshController))) =
     metadataRequests @ metadataRequests @ metadataRequests"
proof -
  have h: "runBatches exampleEnv exampleBatches
             (mount exampleEnv [(''digest_text'', True)] False None True Map.empty) =
           Some (the (runBatches exampleEnv exampleBatches freshController))"
    using exampleBatches_run by (simp add: freshController_def)
  have c: "length (filter (\<lambda>evs. Refresh \<in> set evs) exampleBatches) = 2"
    by (simp add: exampleBatches_def)
  have n: "count_list (concat exampleBatches) Refresh = 3"
    by (simp add: exampleBatches_def)
  show ?thesis
    using exampleBatches_run n metadata_fetches_once_per_refreshing_render [OF h]
    by (simp add: c numeral_3_eq_3)
qed

text \<open>
  The claim C4 as it is written counts one run of the metadata calls for every
  invocation of \<open>refresh\<close>. A handler of a fresh controller that calls \<open>refresh\<close>
  twice is followed by one render: the counter has gone from 0 to 2 and the effect runs
  once, so eight metadata calls have been issued, not twelve.
\<close>

theorem refresh_twice_one_render_counterexample:
  "batch exampleEnv [Refresh, Refresh] freshController \<noteq> None \<and>
   refreshTimes (the (batch exampleEnv [Refresh, Refresh] freshController)) = 2 \<and>
   filter isMetadata (issued (the (batch exampleEnv [Refresh, Refresh] freshController))) =
     metadataRequests @ metadataRequests \<and>
   filter isMetadata (issued (the (batch exampleEnv [Refresh, Refresh] freshController))) \<noteq>
     concat (replicate (Suc 2) metadataRequests)"
proof -
  have b: "batch exampleEnv [Refresh, Refresh] freshController =
             Some (runEffects exampleEnv (refresh (refresh freshController)))"
    by (simp add: batch_def)
  have i: "filter isMetadata (issued (runEffects exampleEnv (refresh (refresh freshController)))) =
             metadataRequests @ metadataRequests"
    by (simp add: runEffects_issued refresh_def freshController_fields filter_metadataRequests)
  have t: "refreshTimes (runEffects exampleEnv (refresh (refresh freshController))) = 2"
    by (simp add: runEffects_refreshTimes refresh_def freshController_fields)
  show ?thesis
    by (simp add: b i t metadataRequests_def numeral_3_eq_3)
qed

text \<open>What the settlement of a call does to the metadata.\<close>

lemma resume_metadata_cong:
  assumes "metadata a = metadata b"
  shows "map_option metadata (resume env q r a) = map_option metadata (resume env q r b)"
  using assms
  by (cases "(env, q, r, a)" rule: resume.cases)
     (auto simp: metadata_def resume_defs Let_def
       split: settled.splits option.splits if_splits prod.splits)

lemma step_Settle_metadata:
  "map_option metadata (step env (Settle j r) w) =
     (case pending w j of None \<Rightarrow> None | Some q \<Rightarrow> map_option metadata (resume env q r w))"
proof (cases "pending w j")
  case None
  then show ?thesis by simp
next
  case (Some q)
  have "metadata (w\<lparr>pending := (pending w)(j := None)\<rparr>) = metadata w"
    by (simp add: metadata_def)
  from resume_metadata_cong [OF this, of env q r] Some show ?thesis
    by (auto simp: runEffects_metadata_tuple split: option.splits)
qed

lemma rejected_metadata_step:
  assumes "committed env w"
    and "r = ConfigResponse (Rejected e) \<or> r = DatabasesResponse (Rejected e) \<or>
         r = TimeRangesResponse (Rejected e) \<or> r = StmtTypesResponse (Rejected e)"
    and "step env (Settle i r) w = Some w1"
  shows "w1 = w\<lparr>pending := (pending w)(i := None), errors := errors w @ [e]\<rparr>"
proof -
  from assms(3) obtain q w2 where q: "pending w i = Some q"
    and w2: "resume env q r (w\<lparr>pending := (pending w)(i := None)\<rparr>) = Some w2"
    and w1: "w1 = runEffects env w2"
    by (auto split: option.splits)
  from w2 assms(2) have e: "w2 = w\<lparr>pending := (pending w)(i := None), errors := errors w @ [e]\<rparr>"
    by (cases "(env, q, r, w\<lparr>pending := (pending w)(i := None)\<rparr>)" rule: resume.cases)
       (auto simp: resume_defs)
  from assms(1) have "committed env w2"
    by (simp add: e committed_def derived_defs)
  with w1 e show ?thesis
    by (simp add: runEffects_committed)
qed

text \<open>
  C6. Let one of the four metadata calls be rejected with an error, in a committed
  state. The error is appended to the shared error list; no metadata field changes,
  the field of the failed call included; the other pending calls stay pending and no
  call is issued; and whatever any other pending call settles with afterwards, the
  metadata that results is the same as if the failure had not happened.
\<close>

theorem metadata_failure_isolated:
  assumes "committed env w"
    and "r = ConfigResponse (Rejected e) \<or> r = DatabasesResponse (Rejected e) \<or>
         r = TimeRangesResponse (Rejected e) \<or> r = StmtTypesResponse (Rejected e)"
    and "step env (Settle i r) w = Some w1"
  shows "errors w1 = errors w @ [e] \<and>
         metadata w1 = metadata w \<and>
         pending w1 = (pending w)(i := None) \<and>
         issued w1 = issued w \<and>
         (\<forall>j r'. j \<noteq> i \<longrightarrow>
            map_option metadata (step env (Settle j r') w1) =
            map_option metadata (step env (Settle j r') w))"
proof -
  note w1 = rejected_metadata_step [OF assms]
  have m: "metadata w1 = metadata w"
    by (simp add: w1 metadata_def)
  have "map_option metadata (step env (Settle j r') w1) =
        map_option metadata (step env (Settle j r') w)" if "j \<noteq> i" for j r'
  proof -
    from that have "pending w1 j = pending w j"
      by (simp add: w1)
    then show ?thesis
      unfolding step_Settle_metadata
      by (simp add: resume_metadata_cong [OF m] split: option.splits)
  qed
  with m show ?thesis
    by (simp add: w1)
qed

lemma exampleController_settle_databases:
  "step exampleEnv (Settle 1 (DatabasesResponse r)) exampleController =
     Some (the (step exampleEnv (Settle 1 (DatabasesResponse r)) exampleController))"
  by (simp add: exampleController_fields)

theorem metadata_failure_isolated_witness:
  "committed exampleEnv exampleController \<and>
   step exampleEnv (Settle 1 (DatabasesResponse (Rejected (RequestError ''500''))))
     exampleController \<noteq> None \<and>
   errors
     (the (step exampleEnv (Settle 1 (DatabasesResponse (Rejected (RequestError ''500''))))
        exampleController)) = [RequestError ''timeout'', RequestError ''500''] \<and>
   metadata
     (the (step exampleEnv (Settle 1 (DatabasesResponse (Rejected (RequestError ''500''))))
        exampleController)) = (Some True, [], [], []) \<and>
   pending
     (the (step exampleEnv (Settle 1 (DatabasesResponse (Rejected (RequestError ''500''))))
        exampleController)) 2 = Some StatementsTimeRangesGet \<and>
   map_option metadata
     (step exampleEnv
        (Settle 2 (TimeRangesResponse (Fulfilled (Some (AxiosResponse
           (Some [\<lparr>begin_time = Some 10, end_time = Some 20\<rparr>]))))))
        (the (step exampleEnv (Settle 1 (DatabasesResponse (Rejected (RequestError ''500''))))
           exampleController))) =
     Some (Some True, [], [\<lparr>begin_time = Some 10, end_time = Some 20\<rparr>], [])"
proof -
  let ?r = "DatabasesResponse (Rejected (RequestError ''500'')) :: string response"
  let ?w1 = "the (step exampleEnv (Settle 1 ?r) exampleController)"
  let ?r' = "TimeRangesResponse (Fulfilled (Some (AxiosResponse
           (Some [\<lparr>begin_time = Some 10, end_time = Some 20\<rparr>])))) :: string response"
  have d: "?r = ConfigResponse (Rejected (RequestError ''500'')) \<or>
           ?r = DatabasesResponse (Rejected (RequestError ''500'')) \<or>
           ?r = TimeRangesResponse (Rejected (RequestError ''500'')) \<or>
           ?r = StmtTypesResponse (Rejected (RequestError ''500''))"
    by simp
  note t = metadata_failure_isolated
    [OF exampleController_committed d exampleController_settle_databases]
  from t have a: "errors ?w1 = [RequestError ''timeout'', RequestError ''500'']"
    by (simp del: step.simps add: exampleController_fields)
  from t have b: "metadata ?w1 = (Some True, [], [], [])"
    by (simp del: step.simps add: metadata_def exampleController_fields)
  from t have c: "pending ?w1 2 = Some StatementsTimeRangesGet"
    by (simp del: step.simps add: exampleController_fields)
  from t have "map_option metadata (step exampleEnv (Settle 2 ?r') ?w1) =
               map_option metadata (step exampleEnv (Settle 2 ?r') exampleController)"
    by (simp del: step.simps)
  also have "\<dots> = Some (Some True, [], [\<lparr>begin_time = Some 10, end_time = Some 20\<rparr>], [])"
    unfolding step_Settle_metadata
    by (simp add: exampleController_fields metadata_def queryTimeRanges_resume_def dataOr_def)
  finally have e: "map_option metadata (step exampleEnv (Settle 2 ?r') ?w1) =
      Some (Some True, [], [\<lparr>begin_time = Some 10, end_time = Some 20\<rparr>], [])" .
  have f: "step exampleEnv (Settle 1 ?r) exampleController \<noteq> None"
    using exampleController_settle_databases [of "Rejected (RequestError ''500'')"]
    by (metis option.distinct(1))
  show ?thesis
    by (intro conjI exampleController_committed f a b c e)
qed

subsection \<open>The metadata at construction and afterwards\<close>

lemma resume_fields:
  assumes "resume env q r w0 = Some w'" and "metadata w0 = metadata w"
  shows "enable w' =
           (case r of
              ConfigResponse (Fulfilled None) \<Rightarrow> None
            | ConfigResponse (Fulfilled (Some (AxiosResponse (Some c)))) \<Rightarrow> config_enable c
            | _ \<Rightarrow> enable w)"
    and "allSchemas w' =
           (case r of DatabasesResponse (Fulfilled res) \<Rightarrow> dataOr res [] | _ \<Rightarrow> allSchemas w)"
    and "allTimeRanges w' =
           (case r of TimeRangesResponse (Fulfilled res) \<Rightarrow> dataOr res [] | _ \<Rightarrow> allTimeRanges w)"
    and "allStmtTypes w' =
           (case r of StmtTypesResponse (Fulfilled res) \<Rightarrow> dataOr res [] | _ \<Rightarrow> allStmtTypes w)"
    and "(case r of
            ConfigResponse s \<Rightarrow> q = StatementsConfigGet
          | DatabasesResponse s \<Rightarrow> q = InfoListDatabases
          | TimeRangesResponse s \<Rightarrow> q = StatementsTimeRangesGet
          | StmtTypesResponse s \<Rightarrow> q = StatementsStmtTypesGet
          | _ \<Rightarrow> True)"
  using assms
  by (cases "(env, q, r, w0)" rule: resume.cases;
      auto simp: resume_defs Let_def metadata_def
        split: settled.splits option.splits if_splits prod.splits AxiosResponse.splits)+

lemma step_not_Settle_metadata:
  assumes "step env ev w = Some w'" and "\<forall>i r. ev \<noteq> Settle i r"
  shows "enable w' = enable w" and "allSchemas w' = allSchemas w"
    and "allTimeRanges w' = allTimeRanges w" and "allStmtTypes w' = allStmtTypes w"
  using assms
  by (cases ev; auto simp: runEffects_metadata setter_defs downloadCSV_def send_def)+

text \<open>
  C3, as the code has it. A freshly constructed controller has the metadata
  \<open>enable = true\<close> and three empty lists, whatever its arguments and the session
  storage. Afterwards an event changes a metadata field only when it is the fulfilment
  of the call of that field's own source, and then the field is replaced by the payload
  (the empty list for an absent payload of a list; for the flag, unset when there is no
  response object, and kept when the response object has no payload).
\<close>

theorem metadata_created_and_replaced:
  fixes w :: "('tr, 'stmt, 'ser) controller"
  shows
  "metadata (mount env keys full options save storage :: ('tr, 'stmt, 'ser) controller) =
     (Some True, [], [], []) \<and>
   (step env ev w = Some w' \<longrightarrow>
      enable w' =
        (case ev of
           Settle i (ConfigResponse (Fulfilled None)) \<Rightarrow> None
         | Settle i (ConfigResponse (Fulfilled (Some (AxiosResponse (Some c))))) \<Rightarrow> config_enable c
         | _ \<Rightarrow> enable w) \<and>
      allSchemas w' =
        (case ev of
           Settle i (DatabasesResponse (Fulfilled res)) \<Rightarrow> dataOr res []
         | _ \<Rightarrow> allSchemas w) \<and>
      allTimeRanges w' =
        (case ev of
           Settle i (TimeRangesResponse (Fulfilled res)) \<Rightarrow> dataOr res []
         | _ \<Rightarrow> allTimeRanges w) \<and>
      allStmtTypes w' =
        (case ev of
           Settle i (StmtTypesResponse (Fulfilled res)) \<Rightarrow> dataOr res []
         | _ \<Rightarrow> allStmtTypes w) \<and>
      (case ev of
         Settle i (ConfigResponse s) \<Rightarrow> pending w i = Some StatementsConfigGet
       | Settle i (DatabasesResponse s) \<Rightarrow> pending w i = Some InfoListDatabases
       | Settle i (TimeRangesResponse s) \<Rightarrow> pending w i = Some StatementsTimeRangesGet
       | Settle i (StmtTypesResponse s) \<Rightarrow> pending w i = Some StatementsStmtTypesGet
       | _ \<Rightarrow> True))"
proof (intro conjI impI)
  show "metadata (mount env keys full options save storage :: ('tr, 'stmt, 'ser) controller) =
     (Some True, [], [], [])"
    unfolding mount_def runEffects_metadata_tuple
    by (simp add: metadata_def initial_def Let_def)
next
  assume s: "step env ev w = Some w'"
  have m: "metadata (w\<lparr>pending := (pending w)(i := None)\<rparr>) = metadata w" for i
    by (simp add: metadata_def)
  show "enable w' =
        (case ev of
           Settle i (ConfigResponse (Fulfilled None)) \<Rightarrow> None
         | Settle i (ConfigResponse (Fulfilled (Some (AxiosResponse (Some c))))) \<Rightarrow> config_enable c
         | _ \<Rightarrow> enable w)"
  proof (cases ev)
    case (Settle i r)
    with s obtain q w1 where "resume env q r (w\<lparr>pending := (pending w)(i := None)\<rparr>) = Some w1"
      and "w' = runEffects env w1"
      by (auto split: option.splits)
    with resume_fields(1) [OF this(1) m] Settle show ?thesis
      by (simp add: runEffects_metadata)
  qed (use step_not_Settle_metadata(1) [OF s] in simp_all)
  show "allSchemas w' =
        (case ev of
           Settle i (DatabasesResponse (Fulfilled res)) \<Rightarrow> dataOr res []
         | _ \<Rightarrow> allSchemas w)"
  proof (cases ev)
    case (Settle i r)
    with s obtain q w1 where "resume env q r (w\<lparr>pending := (pending w)(i := None)\<rparr>) = Some w1"
      and "w' = runEffects env w1"
      by (auto split: option.splits)
    with resume_fields(2) [OF this(1) m] Settle show ?thesis
      by (simp add: runEffects_metadata)
  qed (use step_not_Settle_metadata(2) [OF s] in simp_all)
  show "allTimeRanges w' =
        (case ev of
           Settle i (TimeRangesResponse (Fulfilled res)) \<Rightarrow> dataOr res []
         | _ \<Rightarrow> allTimeRanges w)"
  proof (cases ev)
    case (Settle i r)
    with s obtain q w1 where "resume env q r (w\<lparr>pending := (pending w)(i := None)\<rparr>) = Some w1"
      and "w' = runEffects env w1"
      by (auto split: option.splits)
    with resume_fields(3) [OF this(1) m] Settle show ?thesis
      by (simp add: runEffects_metadata)
  qed (use step_not_Settle_metadata(3) [OF s] in simp_all)
  show "allStmtTypes w' =
        (case ev of
           Settle i (StmtTypesResponse (Fulfilled res)) \<Rightarrow> dataOr res []
         | _ \<Rightarrow> allStmtTypes w)"
  proof (cases ev)
    case (Settle i r)
    with s obtain q w1 where "resume env q r (w\<lparr>pending := (pending w)(i := None)\<rparr>) = Some w1"
      and "w' = runEffects env w1"
      by (auto split: option.splits)
    with resume_fields(4) [OF this(1) m] Settle show ?thesis
      by (simp add: runEffects_metadata)
  qed (use step_not_Settle_metadata(4) [OF s] in simp_all)
  show "(case ev of
         Settle i (ConfigResponse s) \<Rightarrow> pending w i = Some StatementsConfigGet
       | Settle i (DatabasesResponse s) \<Rightarrow> pending w i = Some InfoListDatabases
       | Settle i (TimeRangesResponse s) \<Rightarrow> pending w i = Some StatementsTimeRangesGet
       | Settle i (StmtTypesResponse s) \<Rightarrow> pending w i = Some StatementsStmtTypesGet
       | _ \<Rightarrow> True)"
  proof (cases ev)
    case (Settle i r)
    with s obtain q w1 where "pending w i = Some q"
      and "resume env q r (w\<lparr>pending := (pending w)(i := None)\<rparr>) = Some w1"
      by (auto split: option.splits)
    with resume_fields(5) [OF this(2) m] Settle show ?thesis
      by (auto split: response.splits)
  qed simp_all
qed

theorem metadata_created_and_replaced_witness:
  "step exampleEnv
     (Settle 1 (DatabasesResponse (Fulfilled (Some (AxiosResponse (Some [''test''])))))) exampleController
     \<noteq> None \<and>
   metadata freshController = (Some True, [], [], []) \<and>
   pending exampleController 1 = Some InfoListDatabases \<and>
   metadata
     (the (step exampleEnv
        (Settle 1 (DatabasesResponse (Fulfilled (Some (AxiosResponse (Some [''test'']))))))
        exampleController)) = (Some True, [''test''], [], [])"
  using exampleController_settle_databases [of "Fulfilled (Some (AxiosResponse (Some [''test''])))"]
    metadata_created_and_replaced
      [where env = exampleEnv and keys = "[(''digest_text'', True)]" and full = False
         and options = None and save = True and storage = Map.empty
         and ev = "Settle 1 (DatabasesResponse (Fulfilled (Some (AxiosResponse (Some [''test''])))))"
         and w = exampleController
         and w' = "the (step exampleEnv
            (Settle 1 (DatabasesResponse (Fulfilled (Some (AxiosResponse (Some [''test'']))))))
            exampleController)"]
  by (simp add: metadata_def freshController_def exampleController_fields dataOr_def)

text \<open>
  The claim C3 as it is written asks for a flag that is false or unset at construction.
  The flag of a freshly constructed controller is true.
\<close>

theorem metadata_enable_unset_counterexample:
  "\<not> (allSchemas freshController = [] \<and> allTimeRanges freshController = [] \<and>
      allStmtTypes freshController = [] \<and>
      (enable freshController = Some False \<or> enable freshController = None))"
  by (simp add: freshController_fields)

end
